theory Spec2Isabelle
  imports Complex_Main
begin

section \<open>The local claims processor (local_processor.py)\<close>

text \<open>
  A shallow embedding of \<^verbatim>\<open>local_processor.py\<close>: the autocoder, the risk
  engine, the settlement function \<^verbatim>\<open>simulate_payment\<close>, the portal summary and
  the batch loop of \<^verbatim>\<open>main\<close>.

  Python floats are idealised as \<open>real\<close> (no rounding, no NaN, no infinities).
  Raised exceptions are values of the type \<open>error\<close>; a function that can raise returns
  \<open>error + 'a\<close> with \<open>Inl\<close> for the exception. What the program reads from outside
  (the entity-recognition pipeline, the HL7 parser, the generative service, the
  builtin \<^verbatim>\<open>float\<close>, scikit-learn's training and the clock) is collected in the
  record \<open>world\<close>; the three files it reads and writes are the record \<open>fs\<close>.
\<close>

subsection \<open>Exceptions\<close>

datatype error =
    OracleFailure      \<comment> \<open>\<^verbatim>\<open>ollama.generate\<close> raised (unreachable, timeout, ...)\<close>
  | KeyError           \<comment> \<open>\<^verbatim>\<open>resp['response']\<close> on a reply without that field\<close>
  | IndexError         \<comment> \<open>\<^verbatim>\<open>[...][0]\<close> on an empty list\<close>
  | ValueError         \<comment> \<open>\<^verbatim>\<open>float(tok)\<close> on a token that is not a number\<close>
  | NotFittedError     \<comment> \<open>\<^verbatim>\<open>TfidfVectorizer.transform\<close> before any fit\<close>
  | ExtractorFailure   \<comment> \<open>the entity-recognition pipeline raised\<close>
  | ParserFailure      \<comment> \<open>reading or parsing the HL7 file raised\<close>
  | NameError          \<comment> \<open>a local variable read before assignment\<close>

subsection \<open>Python string operations\<close>

text \<open>
  A string is a list of code points below 256 (ASCII and Latin-1), one \<open>char\<close> each;
  text with higher code points is outside the model. \<^verbatim>\<open>str.lower\<close> maps the
  letters A to Z, and the Latin-1 capitals U+00C0 to U+00DE except the multiplication
  sign U+00D7, to the code point 32 above.
\<close>

definition lower_char :: "char \<Rightarrow> char" where
  "lower_char c =
     (case map_of (zip ''ABCDEFGHIJKLMNOPQRSTUVWXYZ'' ''abcdefghijklmnopqrstuvwxyz'') c of
        Some l \<Rightarrow> l
      | None \<Rightarrow>
          (let n = (of_char c :: nat) in
           if 192 \<le> n \<and> n \<le> 222 \<and> n \<noteq> 215 then char_of (n + 32) else c))"

definition lower :: "string \<Rightarrow> string" where
  "lower s = map lower_char s"

text \<open>\<^verbatim>\<open>s.startswith(p)\<close>, \<^verbatim>\<open>sub in s\<close> and \<^verbatim>\<open>s.endswith(suf)\<close>.\<close>

fun startswith :: "string \<Rightarrow> string \<Rightarrow> bool" where
  "startswith s [] = True"
| "startswith [] (p # ps) = False"
| "startswith (c # cs) (p # ps) = (c = p \<and> startswith cs ps)"

fun contains :: "string \<Rightarrow> string \<Rightarrow> bool" where
  "contains sub [] = (sub = [])"
| "contains sub (c # cs) = (startswith (c # cs) sub \<or> contains sub cs)"

definition endswith :: "string \<Rightarrow> string \<Rightarrow> bool" where
  "endswith s suf = startswith (rev s) (rev suf)"

text \<open>
  \<^verbatim>\<open>s.split()\<close>: the maximal runs of non-whitespace characters, in order. The
  whitespace characters of Python below 256 are the space, \<^verbatim>\<open>\t \n \v \f \r\<close>,
  the separators U+001C to U+001F, the next-line control U+0085 and the no-break space
  U+00A0.
\<close>

definition is_space :: "char \<Rightarrow> bool" where
  "is_space c =
     (let n = (of_char c :: nat) in
      n = 32 \<or> (9 \<le> n \<and> n \<le> 13) \<or> (28 \<le> n \<and> n \<le> 31) \<or> n = 133 \<or> n = 160)"

fun split_from :: "string \<Rightarrow> string \<Rightarrow> string list" where
  "split_from tok [] = (if tok = [] then [] else [tok])"
| "split_from tok (c # cs) =
     (if is_space c then (if tok = [] then split_from [] cs else tok # split_from [] cs)
      else split_from (tok @ [c]) cs)"

definition split :: "string \<Rightarrow> string list" where
  "split s = split_from [] s"

text \<open>\<^verbatim>\<open>sep.join(xs)\<close>.\<close>

fun join :: "string \<Rightarrow> string list \<Rightarrow> string" where
  "join sep [] = []"
| "join sep [x] = x"
| "join sep (x # y # ys) = x @ sep @ join sep (y # ys)"

subsection \<open>LocalAutocoder\<close>

text \<open>
  The code set \<^verbatim>\<open>{"ICD": [], "CPT": []}\<close> is a record of two lists. Of each
  entity the pipeline returns only \<^verbatim>\<open>ent['word']\<close> is read, so the pipeline's
  result is the list of those words. \<^verbatim>\<open>self.code_map\<close> is a dict literal; its
  keys are iterated in insertion order.
\<close>

record codes =
  ICD :: "string list"
  CPT :: "string list"

record autocoder =
  ner_pipeline :: "string \<Rightarrow> error + string list"
  code_map :: "(string \<times> string) list"

definition LocalAutocoder_init :: "(string \<Rightarrow> error + string list) \<Rightarrow> autocoder" where
  "LocalAutocoder_init pipeline =
     \<lparr>ner_pipeline = pipeline,
      code_map = [(''diabetes'', ''E11.9''), (''blood test'', ''82947''),
                  (''office visit'', ''99213'')]\<rparr>"

text \<open>\<^verbatim>\<open>d.get(key, default)\<close>.\<close>

definition get :: "(string \<times> string) list \<Rightarrow> string \<Rightarrow> string \<Rightarrow> string" where
  "get d k dflt = (case map_of d k of None \<Rightarrow> dflt | Some v \<Rightarrow> v)"

text \<open>The body of the \<^verbatim>\<open>for ent in entities\<close> loop of \<^verbatim>\<open>autocode\<close>.\<close>

fun code_entities :: "(string \<times> string) list \<Rightarrow> string list \<Rightarrow> codes \<Rightarrow> codes" where
  "code_entities cm [] cs = cs"
| "code_entities cm (ent # ents) cs =
     (let word = lower ent in
      if list_ex (\<lambda>diag. contains diag word) (map fst cm)
      then code_entities cm ents (cs\<lparr>ICD := ICD cs @ [get cm word ''Unmapped'']\<rparr>)
      else if list_ex (\<lambda>proc. contains proc word) [''test'', ''visit'']
      then code_entities cm ents (cs\<lparr>CPT := CPT cs @ [get cm word ''Unmapped'']\<rparr>)
      else code_entities cm ents cs)"

definition autocode :: "autocoder \<Rightarrow> string \<Rightarrow> error + codes" where
  "autocode self claim_text =
     (case ner_pipeline self claim_text of
        Inl e \<Rightarrow> Inl e
      | Inr entities \<Rightarrow> Inr (code_entities (code_map self) entities \<lparr>ICD = [], CPT = []\<rparr>))"

subsection \<open>What the program reads from outside\<close>

text \<open>
  A reply of \<^verbatim>\<open>ollama.generate\<close>: the call raises, or returns a mapping whose
  \<^verbatim>\<open>'response'\<close> field is present or not.
\<close>

datatype oracle_reply = Raises | Reply "string option"

text \<open>
  The TF-IDF vectorizer is unfitted or fitted on a list of documents. The feature vector
  of a text is determined by those documents and the text. A fitted classifier is its
  \<^verbatim>\<open>predict_proba(features)[0][1]\<close>, the probability of the class 1: scikit-learn
  returns a number between 0 and 1 there, which the type \<open>probability\<close> records.
\<close>

datatype vectorizer = Unfitted | Fitted "string list"

type_synonym features = "string list \<times> string"

typedef probability = "{p::real. 0 \<le> p \<and> p \<le> 1}"
  morphisms prob_value Abs_probability
  by (rule exI [of _ 0]) simp

setup_lifting type_definition_probability

type_synonym classifier = "features \<Rightarrow> probability"

record world =
  ner :: "string \<Rightarrow> error + string list"
    \<comment> \<open>the \<^verbatim>\<open>transformers\<close> pipeline: the words of the entities of a text\<close>
  parse_hl7_claim :: "string \<Rightarrow> error + string \<times> real"
    \<comment> \<open>\<^verbatim>\<open>parse_hl7_claim\<close> on a file of the directory: text and value\<close>
  generate :: "string \<Rightarrow> oracle_reply"
    \<comment> \<open>\<^verbatim>\<open>ollama.generate\<close> on a prompt\<close>
  py_float :: "string \<Rightarrow> real option"
    \<comment> \<open>the builtin \<^verbatim>\<open>float\<close> on a token, \<open>None\<close> where it raises\<close>
  lr_fit :: "(features \<times> nat) list \<Rightarrow> classifier"
    \<comment> \<open>\<^verbatim>\<open>LogisticRegression().fit\<close> on labelled feature vectors\<close>
  clock :: "string \<Rightarrow> nat"
    \<comment> \<open>\<^verbatim>\<open>pd.Timestamp.now()\<close> while the given file is processed\<close>

text \<open>
  The builtin \<^verbatim>\<open>float\<close> on unsigned decimal literals (\<^verbatim>\<open>7\<close>,
  \<^verbatim>\<open>0.45\<close>); the concrete examples below use it as \<open>py_float\<close>. Every
  other token is rejected by it, which the builtin does only for tokens that are not
  numbers.
\<close>

definition digit_of :: "char \<Rightarrow> nat option" where
  "digit_of c =
     (let n = (of_char c :: nat) in if 48 \<le> n \<and> n \<le> 57 then Some (n - 48) else None)"

fun digits_from :: "nat \<Rightarrow> string \<Rightarrow> nat option" where
  "digits_from acc [] = Some acc"
| "digits_from acc (c # cs) =
     (case digit_of c of None \<Rightarrow> None | Some d \<Rightarrow> digits_from (10 * acc + d) cs)"

definition decimal_float :: "string \<Rightarrow> real option" where
  "decimal_float tok =
     (let ip = takeWhile (\<lambda>c. c \<noteq> CHR ''.'') tok;
          fp = drop (Suc (length ip)) tok
      in if ip = [] \<or> (fp = [] \<and> length ip < length tok) then None
         else case (digits_from 0 ip, digits_from 0 fp) of
                (Some i, Some f) \<Rightarrow> Some (real i + real f / 10 ^ length fp)
              | _ \<Rightarrow> None)"

subsection \<open>LocalRiskEngine\<close>

record risk_engine =
  vectorizer :: vectorizer
  clf :: "classifier option"

text \<open>
  The seed rows of \<^verbatim>\<open>_train_mock_model\<close>: \<^verbatim>\<open>df['text'] + ' ' + df['codes']\<close>
  and \<^verbatim>\<open>df['paid']\<close>.
\<close>

definition seed_docs :: "string list" where
  "seed_docs = [''diabetes check'' @ '' '' @ ''E11.9'', ''routine visit'' @ '' '' @ ''99213'',
                ''high risk procedure'' @ '' '' @ ''Unmapped'']"

definition seed_paid :: "nat list" where
  "seed_paid = [1, 1, 0]"

text \<open>
  \<^verbatim>\<open>_train_mock_model\<close> fits the vectorizer and the classifier on the seed rows and
  dumps the classifier, and only the classifier, to \<^verbatim>\<open>risk_model.pkl\<close>. It
  returns the engine and the new content of that file.
\<close>

definition train_mock_model :: "world \<Rightarrow> risk_engine \<Rightarrow> risk_engine \<times> classifier option" where
  "train_mock_model w self =
     (let X = map (\<lambda>d. (seed_docs, d)) seed_docs;
          fitted = lr_fit w (zip X seed_paid)
      in (self\<lparr>vectorizer := Fitted seed_docs, clf := Some fitted\<rparr>, Some fitted))"

text \<open>
  \<^verbatim>\<open>LocalRiskEngine.__init__\<close>, given the content of \<^verbatim>\<open>risk_model.pkl\<close>
  (\<open>None\<close> when the file does not exist). The fresh \<^verbatim>\<open>LogisticRegression()\<close>
  is replaced on both paths; the fresh \<^verbatim>\<open>TfidfVectorizer\<close> only by training.
\<close>

definition LocalRiskEngine_init ::
  "world \<Rightarrow> classifier option \<Rightarrow> risk_engine \<times> classifier option" where
  "LocalRiskEngine_init w pkl =
     (let self = \<lparr>vectorizer = Unfitted, clf = None\<rparr> in
      case pkl of
        Some loaded \<Rightarrow> (self\<lparr>clf := Some loaded\<rparr>, pkl)
      | None \<Rightarrow> train_mock_model w self)"

text \<open>\<^verbatim>\<open>str(coded_claim)\<close>: the dict printed with its two lists.\<close>

definition repr_str :: "string \<Rightarrow> string" where
  "repr_str s = [CHR 0x27] @ s @ [CHR 0x27]"

definition repr_list :: "string list \<Rightarrow> string" where
  "repr_list xs = ''['' @ join '', '' (map repr_str xs) @ '']''"

definition str_codes :: "codes \<Rightarrow> string" where
  "str_codes c =
     ''{'' @ repr_str ''ICD'' @ '': '' @ repr_list (ICD c) @ '', '' @
     repr_str ''CPT'' @ '': '' @ repr_list (CPT c) @ ''}''"

definition prompt_of :: "codes \<Rightarrow> string \<Rightarrow> string" where
  "prompt_of coded_claim claim_text =
     ''Risk score (0-1, high=likely paid) for claim: '' @ claim_text @
     ''. Codes: '' @ str_codes coded_claim"

text \<open>
  The body of the \<^verbatim>\<open>try\<close> block of \<^verbatim>\<open>score\<close>:
  \<^verbatim>\<open>float(resp['response'].split()[0])\<close>.
\<close>

definition first_number :: "world \<Rightarrow> string \<Rightarrow> error + real" where
  "first_number w prompt =
     (case generate w prompt of
        Raises \<Rightarrow> Inl OracleFailure
      | Reply None \<Rightarrow> Inl KeyError
      | Reply (Some response) \<Rightarrow>
          (case split response of
             [] \<Rightarrow> Inl IndexError
           | tok # _ \<Rightarrow> (case py_float w tok of None \<Rightarrow> Inl ValueError | Some x \<Rightarrow> Inr x)))"

text \<open>The \<^verbatim>\<open>try ... except: llm_score = 0.5\<close> statement as a whole.\<close>

definition llm_score :: "world \<Rightarrow> string \<Rightarrow> real" where
  "llm_score w prompt = (case first_number w prompt of Inl _ \<Rightarrow> 0.5 | Inr x \<Rightarrow> x)"

text \<open>
  \<^verbatim>\<open>self.vectorizer.transform([doc])\<close> and
  \<^verbatim>\<open>self.clf.predict_proba(features)[0][1]\<close>; each raises on an estimator
  that was never fitted.
\<close>

definition transform :: "vectorizer \<Rightarrow> string \<Rightarrow> error + features" where
  "transform v doc = (case v of Unfitted \<Rightarrow> Inl NotFittedError | Fitted docs \<Rightarrow> Inr (docs, doc))"

definition predict_proba :: "classifier option \<Rightarrow> features \<Rightarrow> error + real" where
  "predict_proba c feats =
     (case c of None \<Rightarrow> Inl NotFittedError | Some m \<Rightarrow> Inr (prob_value (m feats)))"

definition ml_score :: "risk_engine \<Rightarrow> codes \<Rightarrow> string \<Rightarrow> error + real" where
  "ml_score self coded_claim claim_text =
     (case transform (vectorizer self) (claim_text @ '' '' @ str_codes coded_claim) of
        Inl e \<Rightarrow> Inl e
      | Inr feats \<Rightarrow> predict_proba (clf self) feats)"

definition score :: "world \<Rightarrow> risk_engine \<Rightarrow> codes \<Rightarrow> string \<Rightarrow> error + real" where
  "score w self coded_claim claim_text =
     (let llm = llm_score w (prompt_of coded_claim claim_text) in
      case ml_score self coded_claim claim_text of
        Inl e \<Rightarrow> Inl e
      | Inr ml \<Rightarrow> Inr ((llm + ml) / 2))"

subsection \<open>simulate_payment\<close>

text \<open>
  A row of \<^verbatim>\<open>paid_claims.csv\<close>. The file is \<open>None\<close> while it does not exist;
  \<^verbatim>\<open>to_csv(mode='a')\<close> creates it (with the header line) or appends to it.
\<close>

record csv_row =
  row_codes :: string
  row_score :: real
  row_paid_amount :: real
  row_status :: string
  row_timestamp :: nat

definition to_csv_append :: "csv_row \<Rightarrow> csv_row list option \<Rightarrow> csv_row list option" where
  "to_csv_append df csv = Some ((case csv of None \<Rightarrow> [] | Some rows \<Rightarrow> rows) @ [df])"

definition simulate_payment ::
  "codes \<Rightarrow> real \<Rightarrow> real \<Rightarrow> nat \<Rightarrow> csv_row list option \<Rightarrow> (bool \<times> real) \<times> csv_row list option" where
  "simulate_payment coded_claim sc claim_value now output_csv =
     (if sc > 0.7 then
        (let paid_amount = claim_value * 0.98;
             df = \<lparr>row_codes = str_codes coded_claim, row_score = sc,
                   row_paid_amount = paid_amount, row_status = ''Paid'',
                   row_timestamp = now\<rparr>
         in ((True, paid_amount), to_csv_append df output_csv))
      else ((False, 0), output_csv))"

subsection \<open>run_portal_metrics\<close>

text \<open>
  What the program prints, one constructor per \<^verbatim>\<open>print\<close> statement, with the
  values its format string shows (the rounding to two decimals is left out).
\<close>

datatype line =
    Rejected_line real string
  | Paid_line string codes real real
  | Batch_complete nat
  | Portal_metrics nat real real
  | Portfolio_line real "real list"

text \<open>
  \<^verbatim>\<open>run_portal_metrics\<close>, given the rows of the paid-claims file and the
  \<^verbatim>\<open>total_value\<close> column of the historical summary (each \<open>None\<close> when the file
  does not exist). \<^verbatim>\<open>total_paid\<close> is assigned only in the first branch, so the
  second branch raises when the first was not taken.
\<close>

definition run_portal_metrics ::
  "csv_row list option \<Rightarrow> real list option \<Rightarrow> line list \<times> error option" where
  "run_portal_metrics paid_csv historical_csv =
     (let total_paid = map_option (\<lambda>df. sum_list (map row_paid_amount df)) paid_csv;
          out1 = (case paid_csv of
                    None \<Rightarrow> []
                  | Some df \<Rightarrow>
                      [Portal_metrics (length df) (sum_list (map row_paid_amount df))
                         (if length df > 0 then real (length df) / 10 * 100 else 0)])
      in case historical_csv of
           None \<Rightarrow> (out1, None)
         | Some hist \<Rightarrow>
             (case total_paid of
                None \<Rightarrow> (out1, Some NameError)
              | Some current_portfolio \<Rightarrow> (out1 @ [Portfolio_line current_portfolio hist], None)))"

subsection \<open>main\<close>

text \<open>The three files the program reads and writes.\<close>

record fs =
  risk_model_pkl :: "classifier option"
  paid_claims_csv :: "csv_row list option"
  historical_summary_csv :: "real list option"

text \<open>The state of the batch loop: the counter, what was printed, and the files.\<close>

record run =
  rejections :: nat
  printed :: "line list"
  files :: fs

text \<open>
  The body of the loop for one \<^verbatim>\<open>.hl7\<close> file. Nothing is printed or written
  before the last of the calls that can raise has returned.
\<close>

definition process_claim ::
  "world \<Rightarrow> autocoder \<Rightarrow> risk_engine \<Rightarrow> string \<Rightarrow> run \<Rightarrow> error + run" where
  "process_claim w autocoder risk_engine hl7_file st =
     (case parse_hl7_claim w hl7_file of
        Inl e \<Rightarrow> Inl e
      | Inr (claim_text, claim_value) \<Rightarrow>
     (case autocode autocoder claim_text of
        Inl e \<Rightarrow> Inl e
      | Inr coded \<Rightarrow>
     (case score w risk_engine coded claim_text of
        Inl e \<Rightarrow> Inl e
      | Inr sc \<Rightarrow>
     (case simulate_payment coded sc claim_value (clock w hl7_file)
             (paid_claims_csv (files st)) of
        ((paid, amount), csv) \<Rightarrow>
          (let st1 = st\<lparr>files := (files st)\<lparr>paid_claims_csv := csv\<rparr>\<rparr> in
           if \<not> paid
           then Inr (st1\<lparr>rejections := rejections st1 + 1,
                         printed := printed st1 @ [Rejected_line sc hl7_file]\<rparr>)
           else Inr (st1\<lparr>printed := printed st1 @ [Paid_line hl7_file coded sc amount]\<rparr>))))))"

text \<open>
  The \<^verbatim>\<open>for hl7_file in os.listdir(hl7_dir)\<close> loop over the listing. An exception
  ends it; \<open>Inl\<close> carries the exception and the state reached.
\<close>

fun batch_loop ::
  "world \<Rightarrow> autocoder \<Rightarrow> risk_engine \<Rightarrow> string list \<Rightarrow> run \<Rightarrow> error \<times> run + run" where
  "batch_loop w autocoder risk_engine [] st = Inr st"
| "batch_loop w autocoder risk_engine (hl7_file # rest) st =
     (if endswith hl7_file ''.hl7''
      then (case process_claim w autocoder risk_engine hl7_file st of
              Inl e \<Rightarrow> Inl (e, st)
            | Inr st' \<Rightarrow> batch_loop w autocoder risk_engine rest st')
      else batch_loop w autocoder risk_engine rest st)"

text \<open>
  The first two statements of \<^verbatim>\<open>main\<close>: the autocoder, the risk engine (which
  may write \<^verbatim>\<open>risk_model.pkl\<close>) and the state the loop starts in.
\<close>

definition main_setup :: "world \<Rightarrow> fs \<Rightarrow> autocoder \<times> risk_engine \<times> run" where
  "main_setup w fs0 =
     (let autocoder = LocalAutocoder_init (ner w);
          (risk_engine, pkl) = LocalRiskEngine_init w (risk_model_pkl fs0)
      in (autocoder, risk_engine,
          \<lparr>rejections = 0, printed = [], files = fs0\<lparr>risk_model_pkl := pkl\<rparr>\<rparr>))"

text \<open>
  \<^verbatim>\<open>main\<close>, given the listing of the directory and the files. Python's
  \<^verbatim>\<open>main\<close> returns \<open>None\<close>; the result here is what an observer of the process
  sees: the exception that ended it, if any, the printed lines and the files.
\<close>

record outcome =
  raised :: "error option"
  stdout :: "line list"
  files_after :: fs

definition main :: "world \<Rightarrow> string list \<Rightarrow> fs \<Rightarrow> outcome" where
  "main w listing fs0 =
     (case main_setup w fs0 of
        (autocoder, risk_engine, st0) \<Rightarrow>
     (case batch_loop w autocoder risk_engine listing st0 of
        Inl (e, st) \<Rightarrow> \<lparr>raised = Some e, stdout = printed st, files_after = files st\<rparr>
      | Inr st \<Rightarrow>
          (let summary = printed st @ [Batch_complete (rejections st)];
               (portal, err) = run_portal_metrics (paid_claims_csv (files st))
                                 (historical_summary_csv (files st))
           in \<lparr>raised = err, stdout = summary @ portal, files_after = files st\<rparr>)))"

subsection \<open>Notions used in the statements\<close>

text \<open>
  Whether the file's claim ends Rejected: all three stages return and
  \<^verbatim>\<open>simulate_payment\<close> answers \<open>False\<close>.
\<close>

definition rejected_outcome :: "world \<Rightarrow> autocoder \<Rightarrow> risk_engine \<Rightarrow> string \<Rightarrow> bool" where
  "rejected_outcome w autocoder risk_engine hl7_file =
     (case parse_hl7_claim w hl7_file of
        Inl _ \<Rightarrow> False
      | Inr (claim_text, claim_value) \<Rightarrow>
     (case autocode autocoder claim_text of
        Inl _ \<Rightarrow> False
      | Inr coded \<Rightarrow>
     (case score w risk_engine coded claim_text of
        Inl _ \<Rightarrow> False
      | Inr sc \<Rightarrow>
          \<not> fst (fst (simulate_payment coded sc claim_value (clock w hl7_file) None)))))"

fun is_summary :: "line \<Rightarrow> bool" where
  "is_summary (Batch_complete n) = True"
| "is_summary l = False"

fun is_rejection :: "line \<Rightarrow> bool" where
  "is_rejection (Rejected_line sc f) = True"
| "is_rejection l = False"

subsection \<open>A concrete directory\<close>

text \<open>
  Four claim files and a text file. The pipeline returns the whole note as one entity
  and raises on the note of \<^verbatim>\<open>d.hl7\<close>; the generative service answers
  \<^verbatim>\<open>0.1 low\<close> for the stress test and \<^verbatim>\<open>0.9\<close> otherwise; the trained
  classifier answers 0.8 everywhere.
\<close>

lift_definition four_fifths :: probability is "4 / 5"
  by simp

definition demo_world :: world where
  "demo_world =
     \<lparr>ner = (\<lambda>t. if t = ''unreadable'' then Inl ExtractorFailure else Inr [t]),
      parse_hl7_claim = (\<lambda>f.
         if f = ''a.hl7'' then Inr (''Diabetes'', 100)
         else if f = ''b.hl7'' then Inr (''office visit'', 200)
         else if f = ''c.hl7'' then Inr (''stress test'', 150)
         else if f = ''d.hl7'' then Inr (''unreadable'', 150)
         else Inl ParserFailure),
      generate = (\<lambda>p. if contains ''stress'' p then Reply (Some ''0.1 low'')
                      else Reply (Some ''0.9'')),
      py_float = decimal_float,
      lr_fit = (\<lambda>_ _. four_fifths),
      clock = (\<lambda>_. 0)\<rparr>"

definition no_files :: fs where
  "no_files = \<lparr>risk_model_pkl = None, paid_claims_csv = None, historical_summary_csv = None\<rparr>"

text \<open>
  The same world with a generative service that answers \<^verbatim>\<open>7\<close>, and with one
  that answers with a sentence that starts with a number.
\<close>

definition seven_world :: world where
  "seven_world = demo_world\<lparr>generate := (\<lambda>_. Reply (Some ''7''))\<rparr>"

definition garbage_world :: world where
  "garbage_world =
     demo_world\<lparr>generate := (\<lambda>_. Reply (Some ''3 reasons this claim is denied''))\<rparr>"

section \<open>The settlement decision\<close>

text \<open>
  C1. For every score and every claim value that is not negative,
  \<^verbatim>\<open>simulate_payment\<close> pays if and only if the score is strictly above 0.7: above
  0.7 it answers Paid with 98 percent of the claim value, at 0.7 and below it answers
  Rejected with the amount 0.
\<close>

theorem simulate_payment_decision:
  "0 \<le> claim_value \<Longrightarrow>
   fst (fst (simulate_payment coded sc claim_value now csv)) = (sc > 0.7) \<and>
   (sc > 0.7 \<longrightarrow>
      fst (simulate_payment coded sc claim_value now csv) = (True, claim_value * 0.98)) \<and>
   (sc \<le> 0.7 \<longrightarrow> fst (simulate_payment coded sc claim_value now csv) = (False, 0))"
  by (simp add: simulate_payment_def Let_def)

text \<open>C1 at a score of 0.9 and at the boundary score 0.7, for a claim of 100.\<close>

theorem simulate_payment_decision_witness:
  "fst (simulate_payment \<lparr>ICD = [''E11.9''], CPT = []\<rparr> 0.9 100 0 None) = (True, 98) \<and>
   fst (simulate_payment \<lparr>ICD = [''E11.9''], CPT = []\<rparr> 0.7 100 0 None) = (False, 0)"
  using simulate_payment_decision [of 100 "\<lparr>ICD = [''E11.9''], CPT = []\<rparr>" "0.9" 0 None]
        simulate_payment_decision [of 100 "\<lparr>ICD = [''E11.9''], CPT = []\<rparr>" "0.7" 0 None]
  by simp

text \<open>
  C7, as the specification states it, says that deciding a claim has no effect beyond
  the returned outcome and persists nothing. It fails: paying a claim of 100 at score
  0.9 creates the paid-claims file with one row.
\<close>

theorem simulate_payment_writes_counterexample:
  "snd (simulate_payment \<lparr>ICD = [''E11.9''], CPT = []\<rparr> 0.9 100 0 None) =
     Some [\<lparr>row_codes = str_codes \<lparr>ICD = [''E11.9''], CPT = []\<rparr>, row_score = 0.9,
            row_paid_amount = 98, row_status = ''Paid'', row_timestamp = 0\<rparr>] \<and>
   snd (simulate_payment \<lparr>ICD = [''E11.9''], CPT = []\<rparr> 0.9 100 0 None) \<noteq> None"
  by (simp add: simulate_payment_def to_csv_append_def)

text \<open>
  C7, amended. A Rejected decision leaves the paid-claims file as it was. A Paid
  decision appends exactly one row to it (codes, score, paid amount, the status Paid and
  the time), after the rows already there, and creates the file when it does not exist.
\<close>

theorem simulate_payment_effect:
  "(sc \<le> 0.7 \<longrightarrow> snd (simulate_payment coded sc claim_value now csv) = csv) \<and>
   (sc > 0.7 \<longrightarrow>
      snd (simulate_payment coded sc claim_value now csv) =
        Some ((case csv of None \<Rightarrow> [] | Some rows \<Rightarrow> rows) @
              [\<lparr>row_codes = str_codes coded, row_score = sc,
                row_paid_amount = claim_value * 0.98, row_status = ''Paid'',
                row_timestamp = now\<rparr>]))"
  by (simp add: simulate_payment_def to_csv_append_def Let_def)

text \<open>C7 amended, at a rejected and at a paid claim, on an existing empty file.\<close>

theorem simulate_payment_effect_witness:
  "snd (simulate_payment \<lparr>ICD = [], CPT = []\<rparr> 0.4 100 0 (Some [])) = Some [] \<and>
   snd (simulate_payment \<lparr>ICD = [], CPT = []\<rparr> 0.9 100 5 (Some [])) =
     Some [\<lparr>row_codes = str_codes \<lparr>ICD = [], CPT = []\<rparr>, row_score = 0.9,
            row_paid_amount = 98, row_status = ''Paid'', row_timestamp = 5\<rparr>]"
  using simulate_payment_effect [of "0.4" "\<lparr>ICD = [], CPT = []\<rparr>" 100 0 "Some []"]
        simulate_payment_effect [of "0.9" "\<lparr>ICD = [], CPT = []\<rparr>" 100 5 "Some []"]
  by simp

section \<open>The risk engine\<close>

lemma prob_value_range: "0 \<le> prob_value p \<and> prob_value p \<le> 1"
  using prob_value [of p] by simp

lemma llm_score_failed:
  "generate w p = Raises \<or> generate w p = Reply None \<or>
   (\<exists>r. generate w p = Reply (Some r) \<and> (split r = [] \<or> py_float w (hd (split r)) = None))
   \<Longrightarrow> llm_score w p = 0.5"
  by (auto simp: llm_score_def first_number_def split: list.splits)

lemma llm_score_parsed:
  "generate w p = Reply (Some r) \<Longrightarrow> split r = tok # rest \<Longrightarrow> py_float w tok = Some x \<Longrightarrow>
   llm_score w p = x"
  by (simp add: llm_score_def first_number_def)

lemma ml_score_fitted:
  "vectorizer self = Fitted docs \<Longrightarrow> clf self = Some m \<Longrightarrow>
   ml_score self coded claim_text =
     Inr (prob_value (m (docs, claim_text @ '' '' @ str_codes coded)))"
  by (simp add: ml_score_def transform_def predict_proba_def)

lemma score_fitted:
  "vectorizer self = Fitted docs \<Longrightarrow> clf self = Some m \<Longrightarrow>
   score w self coded claim_text =
     Inr ((llm_score w (prompt_of coded claim_text) +
           prob_value (m (docs, claim_text @ '' '' @ str_codes coded))) / 2)"
  by (simp add: score_def ml_score_fitted)

text \<open>
  The engine that \<^verbatim>\<open>__init__\<close> trains when no model file exists has a fitted
  vectorizer and a fitted classifier.
\<close>

lemma bootstrap_fitted:
  "vectorizer (fst (LocalRiskEngine_init w None)) = Fitted seed_docs \<and>
   (\<exists>m. clf (fst (LocalRiskEngine_init w None)) = Some m)"
  by (simp add: LocalRiskEngine_init_def train_mock_model_def Let_def)

lemma demo_engine:
  "fst (LocalRiskEngine_init demo_world None) =
     \<lparr>vectorizer = Fitted seed_docs, clf = Some (\<lambda>_. four_fifths)\<rparr>"
  by (simp add: LocalRiskEngine_init_def train_mock_model_def demo_world_def Let_def)

lemma demo_prompt_reply:
  "generate demo_world (prompt_of \<lparr>ICD = [''E11.9''], CPT = []\<rparr> ''Diabetes'') =
     Reply (Some ''0.9'')"
  by code_simp

text \<open>
  C4, as the specification states it, says that every failing behaviour of the
  generative service, a malformed or garbage response among them, gives the neutral
  score 0.5. It fails for a garbage response whose first token is a number: the reply
  \<^verbatim>\<open>3 reasons this claim is denied\<close> gives the generative sub-score 3.
\<close>

theorem llm_score_garbage_counterexample:
  "llm_score garbage_world (prompt_of \<lparr>ICD = [''E11.9''], CPT = []\<rparr> ''Diabetes'') = 3 \<and>
   llm_score garbage_world (prompt_of \<lparr>ICD = [''E11.9''], CPT = []\<rparr> ''Diabetes'') \<noteq> 0.5"
  by (simp add: llm_score_def first_number_def garbage_world_def demo_world_def split_def
        is_space_def decimal_float_def digit_of_def)

text \<open>
  C4, amended. The generative sub-score is the neutral 0.5 when the call raises, when
  the reply has no response field, when the response is empty or blank, and when
  \<^verbatim>\<open>float\<close> rejects its first token. A response whose first token
  \<^verbatim>\<open>float\<close> accepts is no failure for the code, whatever follows the token: the
  sub-score is that number. No behaviour of the service makes \<^verbatim>\<open>score\<close> raise:
  on a fitted engine it returns a score in every world.
\<close>

theorem llm_score_fallback:
  "(generate w p = Raises \<or> generate w p = Reply None \<or>
    (\<exists>r. generate w p = Reply (Some r) \<and> (split r = [] \<or> py_float w (hd (split r)) = None))
      \<longrightarrow> llm_score w p = 0.5) \<and>
   (generate w p = Reply (Some r) \<and> split r = tok # rest \<and> py_float w tok = Some x
      \<longrightarrow> llm_score w p = x) \<and>
   (vectorizer self = Fitted docs \<and> clf self = Some m
      \<longrightarrow> (\<exists>s. score w self coded claim_text = Inr s))"
  using llm_score_failed [of w p] llm_score_parsed [of w p r tok rest x]
        score_fitted [of self docs m w coded claim_text]
  by blast

text \<open>
  C4 amended, at a service that raises, one that answers without a response field,
  one that answers with blanks (a space and a no-break space), one whose answer starts
  with a word, and one whose answer starts with the number 3; and \<^verbatim>\<open>score\<close> on
  the trained engine with the service that raises.
\<close>

theorem llm_score_fallback_witness:
  "llm_score (demo_world\<lparr>generate := (\<lambda>_. Raises)\<rparr>) ''p'' = 0.5 \<and>
   llm_score (demo_world\<lparr>generate := (\<lambda>_. Reply None)\<rparr>) ''p'' = 0.5 \<and>
   llm_score (demo_world\<lparr>generate := (\<lambda>_. Reply (Some [CHR '' '', CHR 0xA0]))\<rparr>) ''p'' = 0.5 \<and>
   llm_score (demo_world\<lparr>generate := (\<lambda>_. Reply (Some ''likely paid, 0.9''))\<rparr>) ''p'' = 0.5 \<and>
   llm_score garbage_world ''p'' = 3 \<and>
   (\<exists>s. score (demo_world\<lparr>generate := (\<lambda>_. Raises)\<rparr>)
           \<lparr>vectorizer = Fitted seed_docs, clf = Some (\<lambda>_. four_fifths)\<rparr>
           \<lparr>ICD = [''E11.9''], CPT = []\<rparr> ''Diabetes'' = Inr s)"
proof -
  let ?e = "\<lparr>vectorizer = Fitted seed_docs, clf = Some (\<lambda>_. four_fifths)\<rparr>"
  have 1: "llm_score (demo_world\<lparr>generate := (\<lambda>_. Raises)\<rparr>) ''p'' = 0.5"
    using llm_score_fallback [of "demo_world\<lparr>generate := (\<lambda>_. Raises)\<rparr>" "''p''"]
    by simp
  have 2: "llm_score (demo_world\<lparr>generate := (\<lambda>_. Reply None)\<rparr>) ''p'' = 0.5"
    using llm_score_fallback [of "demo_world\<lparr>generate := (\<lambda>_. Reply None)\<rparr>" "''p''"]
    by simp
  have 3: "llm_score (demo_world\<lparr>generate := (\<lambda>_. Reply (Some [CHR '' '', CHR 0xA0]))\<rparr>) ''p''
             = 0.5"
    using llm_score_fallback
      [of "demo_world\<lparr>generate := (\<lambda>_. Reply (Some [CHR '' '', CHR 0xA0]))\<rparr>" "''p''"]
    by (simp add: split_def is_space_def)
  have 4: "llm_score (demo_world\<lparr>generate := (\<lambda>_. Reply (Some ''likely paid, 0.9''))\<rparr>) ''p''
             = 0.5"
    using llm_score_fallback
      [of "demo_world\<lparr>generate := (\<lambda>_. Reply (Some ''likely paid, 0.9''))\<rparr>" "''p''"]
    by (simp add: split_def is_space_def demo_world_def decimal_float_def digit_of_def)
  have s: "split ''3 reasons this claim is denied'' =
             ''3'' # [''reasons'', ''this'', ''claim'', ''is'', ''denied'']"
    by (simp add: split_def is_space_def)
  have f: "py_float garbage_world ''3'' = Some 3"
    by (simp add: garbage_world_def demo_world_def decimal_float_def digit_of_def)
  have g: "generate garbage_world ''p'' = Reply (Some ''3 reasons this claim is denied'')"
    by (simp add: garbage_world_def)
  have 5: "llm_score garbage_world ''p'' = 3"
    using llm_score_fallback [of garbage_world "''p''" "''3 reasons this claim is denied''"
      "''3''" "[''reasons'', ''this'', ''claim'', ''is'', ''denied'']" 3] s f g
    by blast
  have 6: "\<exists>s. score (demo_world\<lparr>generate := (\<lambda>_. Raises)\<rparr>) ?e
                 \<lparr>ICD = [''E11.9''], CPT = []\<rparr> ''Diabetes'' = Inr s"
    using llm_score_fallback [where self = ?e and docs = seed_docs
      and m = "\<lambda>_. four_fifths" and w = "demo_world\<lparr>generate := (\<lambda>_. Raises)\<rparr>"
      and coded = "\<lparr>ICD = [''E11.9''], CPT = []\<rparr>" and claim_text = "''Diabetes''"]
    by simp
  from 1 2 3 4 5 6 show ?thesis by blast
qed

text \<open>
  C2, as the specification states it, says that both sub-scores lie between 0 and 1
  and so does the final score. It fails: the first token of the reply is converted
  with \<^verbatim>\<open>float\<close> and used as it is. A service that answers \<^verbatim>\<open>7\<close> gives the
  generative sub-score 7 and, with the statistical sub-score 0.8, the final score 3.9,
  on the engine that \<^verbatim>\<open>__init__\<close> trains.
\<close>

theorem score_out_of_range_counterexample:
  "llm_score seven_world (prompt_of \<lparr>ICD = [''E11.9''], CPT = []\<rparr> ''Diabetes'') = 7 \<and>
   score seven_world (fst (LocalRiskEngine_init seven_world None))
     \<lparr>ICD = [''E11.9''], CPT = []\<rparr> ''Diabetes'' = Inr 3.9 \<and>
   \<not> (3.9 \<le> (1::real))"
  by (simp add: score_def ml_score_def transform_def predict_proba_def llm_score_def
        first_number_def seven_world_def demo_world_def split_def is_space_def
        decimal_float_def digit_of_def LocalRiskEngine_init_def train_mock_model_def
        four_fifths.rep_eq Let_def)

text \<open>
  C2, amended. On an engine whose vectorizer and classifier are fitted, as the one
  \<^verbatim>\<open>__init__\<close> trains, the final score is returned and is the unweighted mean of
  the generative and the statistical sub-score, and the statistical sub-score, a
  probability of the classifier, lies between 0 and 1. The generative sub-score is 0.5
  when the service fails and otherwise the number \<^verbatim>\<open>float\<close> gives for the first
  token of the response, with no range check; the final score lies between 0 and 1
  whenever that number does.
\<close>

theorem score_is_mean:
  assumes "vectorizer self = Fitted docs"
      and "clf self = Some m"
  shows "\<exists>ml. ml_score self coded claim_text = Inr ml \<and> 0 \<le> ml \<and> ml \<le> 1 \<and>
           score w self coded claim_text =
             Inr ((llm_score w (prompt_of coded claim_text) + ml) / 2) \<and>
           (generate w (prompt_of coded claim_text) = Reply (Some r) \<and>
            split r = tok # rest \<and> py_float w tok = Some x \<longrightarrow>
              llm_score w (prompt_of coded claim_text) = x \<and>
              score w self coded claim_text = Inr ((x + ml) / 2)) \<and>
           (generate w (prompt_of coded claim_text) = Raises \<or>
            generate w (prompt_of coded claim_text) = Reply None \<or>
            (\<exists>t. generate w (prompt_of coded claim_text) = Reply (Some t) \<and>
                 (split t = [] \<or> py_float w (hd (split t)) = None)) \<longrightarrow>
              llm_score w (prompt_of coded claim_text) = 0.5 \<and>
              score w self coded claim_text = Inr ((0.5 + ml) / 2)) \<and>
           (0 \<le> llm_score w (prompt_of coded claim_text) \<and>
            llm_score w (prompt_of coded claim_text) \<le> 1 \<longrightarrow>
              0 \<le> (llm_score w (prompt_of coded claim_text) + ml) / 2 \<and>
              (llm_score w (prompt_of coded claim_text) + ml) / 2 \<le> 1)"
proof -
  let ?p = "prompt_of coded claim_text"
  let ?ml = "prob_value (m (docs, claim_text @ '' '' @ str_codes coded))"
  have m: "ml_score self coded claim_text = Inr ?ml"
    using assms by (rule ml_score_fitted)
  have r: "0 \<le> ?ml" "?ml \<le> 1"
    using prob_value_range [of "m (docs, claim_text @ '' '' @ str_codes coded)"] by simp_all
  have s: "score w self coded claim_text = Inr ((llm_score w ?p + ?ml) / 2)"
    using assms by (rule score_fitted)
  have p: "generate w ?p = Reply (Some r) \<and> split r = tok # rest \<and> py_float w tok = Some x
             \<longrightarrow> llm_score w ?p = x \<and> score w self coded claim_text = Inr ((x + ?ml) / 2)"
    using llm_score_parsed [of w ?p r tok rest x] s by auto
  have f: "generate w ?p = Raises \<or> generate w ?p = Reply None \<or>
           (\<exists>t. generate w ?p = Reply (Some t) \<and>
                (split t = [] \<or> py_float w (hd (split t)) = None))
             \<longrightarrow> llm_score w ?p = 0.5 \<and>
                 score w self coded claim_text = Inr ((0.5 + ?ml) / 2)"
    using llm_score_failed [of w ?p] s by auto
  have b: "0 \<le> llm_score w ?p \<and> llm_score w ?p \<le> 1 \<longrightarrow>
             0 \<le> (llm_score w ?p + ?ml) / 2 \<and> (llm_score w ?p + ?ml) / 2 \<le> 1"
    using r by auto
  show ?thesis
    using m r s p f b by blast
qed

text \<open>
  C2 amended, on the engine that \<^verbatim>\<open>__init__\<close> trains on the seed rows, with the
  service that answers \<^verbatim>\<open>0.9\<close>: the mean of 0.9 and 0.8.
\<close>

theorem score_is_mean_witness:
  "ml_score (fst (LocalRiskEngine_init demo_world None))
     \<lparr>ICD = [''E11.9''], CPT = []\<rparr> ''Diabetes'' = Inr 0.8 \<and>
   llm_score demo_world (prompt_of \<lparr>ICD = [''E11.9''], CPT = []\<rparr> ''Diabetes'') = 0.9 \<and>
   score demo_world (fst (LocalRiskEngine_init demo_world None))
     \<lparr>ICD = [''E11.9''], CPT = []\<rparr> ''Diabetes'' = Inr 0.85"
proof -
  let ?e = "fst (LocalRiskEngine_init demo_world None)"
  let ?c = "\<lparr>ICD = [''E11.9''], CPT = []\<rparr>"
  have v: "vectorizer ?e = Fitted seed_docs" and c: "clf ?e = Some (\<lambda>_. four_fifths)"
    by (simp_all add: demo_engine)
  have m: "ml_score ?e ?c ''Diabetes'' = Inr 0.8"
    by (simp add: ml_score_fitted [OF v c] four_fifths.rep_eq)
  have s: "split ''0.9'' = ''0.9'' # []"
    by (simp add: split_def is_space_def)
  have f: "py_float demo_world ''0.9'' = Some 0.9"
    by (simp add: demo_world_def decimal_float_def digit_of_def)
  from score_is_mean [OF v c, of ?c "''Diabetes''" demo_world "''0.9''" "''0.9''" "[]" "0.9"]
  obtain ml where
    1: "ml_score ?e ?c ''Diabetes'' = Inr ml" and
    2: "generate demo_world (prompt_of ?c ''Diabetes'') = Reply (Some ''0.9'') \<and>
        split ''0.9'' = ''0.9'' # [] \<and> py_float demo_world ''0.9'' = Some 0.9 \<longrightarrow>
          llm_score demo_world (prompt_of ?c ''Diabetes'') = 0.9 \<and>
          score demo_world ?e ?c ''Diabetes'' = Inr ((0.9 + ml) / 2)"
    by blast
  from 1 m have "ml = 0.8" by simp
  with 2 demo_prompt_reply s f m show ?thesis by simp
qed

text \<open>
  C5 says that classifier and vectorizer are both loaded when a persisted model is
  present, and both persisted after training. The code dumps and loads the classifier
  alone. With \<^verbatim>\<open>risk_model.pkl\<close> present the vectorizer stays unfitted and every
  call of \<^verbatim>\<open>score\<close> raises; so the first run over a directory succeeds and writes
  the file, and the second run over the same directory fails at its first claim.
\<close>

theorem persisted_model_breaks_scoring:
  "vectorizer (fst (LocalRiskEngine_init w (Some m))) = Unfitted \<and>
   clf (fst (LocalRiskEngine_init w (Some m))) = Some m \<and>
   score w (fst (LocalRiskEngine_init w (Some m))) coded claim_text = Inl NotFittedError \<and>
   snd (LocalRiskEngine_init w None) = clf (fst (LocalRiskEngine_init w None)) \<and>
   raised (main demo_world [''a.hl7''] no_files) = None \<and>
   raised (main demo_world [''a.hl7''] (files_after (main demo_world [''a.hl7''] no_files)))
     = Some NotFittedError"
proof -
  have 1: "raised (main demo_world [''a.hl7''] no_files) = None"
    by code_simp
  have 2: "raised (main demo_world [''a.hl7''] (files_after (main demo_world [''a.hl7''] no_files)))
     = Some NotFittedError"
    by code_simp
  show ?thesis
    using 1 2
    by (simp add: LocalRiskEngine_init_def train_mock_model_def score_def ml_score_def
          transform_def predict_proba_def Let_def)
qed

section \<open>The autocoder\<close>

lemma get_range: "get d k dflt \<in> insert dflt (snd ` set d)"
  by (auto simp: get_def split: option.splits dest: map_of_SomeD intro: rev_image_eqI)

lemma code_entities_range:
  "set (ICD cs) \<union> set (CPT cs) \<subseteq> insert ''Unmapped'' (snd ` set cm) \<Longrightarrow>
   set (ICD (code_entities cm ents cs)) \<union> set (CPT (code_entities cm ents cs))
     \<subseteq> insert ''Unmapped'' (snd ` set cm)"
proof (induction ents arbitrary: cs)
  case Nil
  then show ?case by simp
next
  case (Cons ent ents)
  have g: "get cm (lower ent) ''Unmapped'' \<in> insert ''Unmapped'' (snd ` set cm)"
    by (rule get_range)
  have 1: "set (ICD (cs\<lparr>ICD := ICD cs @ [get cm (lower ent) ''Unmapped'']\<rparr>)) \<union>
           set (CPT (cs\<lparr>ICD := ICD cs @ [get cm (lower ent) ''Unmapped'']\<rparr>))
             \<subseteq> insert ''Unmapped'' (snd ` set cm)"
    using Cons.prems g by auto
  have 2: "set (ICD (cs\<lparr>CPT := CPT cs @ [get cm (lower ent) ''Unmapped'']\<rparr>)) \<union>
           set (CPT (cs\<lparr>CPT := CPT cs @ [get cm (lower ent) ''Unmapped'']\<rparr>))
             \<subseteq> insert ''Unmapped'' (snd ` set cm)"
    using Cons.prems g by auto
  show ?case
    using Cons.IH [OF 1] Cons.IH [OF 2] Cons.IH [OF Cons.prems]
    by (simp only: code_entities.simps Let_def split: if_split) simp
qed

text \<open>
  C9. Whatever the claim text and whatever entities the pipeline returns, every string
  in either list of the code set that \<^verbatim>\<open>autocode\<close> returns is one of the three
  values of the code map or the string \<^verbatim>\<open>Unmapped\<close>.
\<close>

theorem autocode_codes_known:
  "autocode (LocalAutocoder_init pipeline) claim_text = Inr cs \<Longrightarrow>
   set (ICD cs) \<union> set (CPT cs) \<subseteq> {''E11.9'', ''82947'', ''99213'', ''Unmapped''}"
proof -
  assume a: "autocode (LocalAutocoder_init pipeline) claim_text = Inr cs"
  let ?cm = "code_map (LocalAutocoder_init pipeline)"
  from a obtain ents where cs: "cs = code_entities ?cm ents \<lparr>ICD = [], CPT = []\<rparr>"
    by (auto simp: autocode_def split: sum.splits)
  have "set (ICD cs) \<union> set (CPT cs) \<subseteq> insert ''Unmapped'' (snd ` set ?cm)"
    unfolding cs by (rule code_entities_range) simp
  also have "insert ''Unmapped'' (snd ` set ?cm) = {''E11.9'', ''82947'', ''99213'', ''Unmapped''}"
    by (auto simp: LocalAutocoder_init_def)
  finally show ?thesis .
qed

text \<open>C9 at a note with four entities, of which one is dropped.\<close>

theorem autocode_codes_known_witness:
  "autocode (LocalAutocoder_init (\<lambda>_. Inr [''Diabetes'', ''Stress Test'', ''aspirin'', ''blood test'']))
     ''note'' = Inr \<lparr>ICD = [''E11.9'', ''82947''], CPT = [''Unmapped'']\<rparr> \<and>
   set [''E11.9'', ''82947''] \<union> set [''Unmapped''] \<subseteq> {''E11.9'', ''82947'', ''99213'', ''Unmapped''}"
proof -
  have e: "autocode (LocalAutocoder_init (\<lambda>_. Inr [''Diabetes'', ''Stress Test'', ''aspirin'', ''blood test'']))
     ''note'' = Inr \<lparr>ICD = [''E11.9'', ''82947''], CPT = [''Unmapped'']\<rparr>"
    by (simp add: autocode_def LocalAutocoder_init_def lower_def lower_char_def get_def)
  from autocode_codes_known [OF e] e show ?thesis by simp
qed

text \<open>
  In the second branch of the loop body the entity text contains no key of the map, so
  it is no key itself and the lookup falls back to its default: the procedure list only
  ever holds \<^verbatim>\<open>Unmapped\<close>.
\<close>

lemma startswith_refl: "startswith s s"
  by (induction s) simp_all

lemma contains_refl: "contains s s"
  by (cases s) (simp_all add: startswith_refl)

lemma get_unmatched:
  assumes "\<not> list_ex (\<lambda>k. contains k word) (map fst cm)"
  shows "get cm word dflt = dflt"
proof (cases "map_of cm word")
  case None
  then show ?thesis by (simp add: get_def)
next
  case (Some v)
  then have "word \<in> fst ` set cm"
    by (auto dest: map_of_SomeD intro: rev_image_eqI)
  with assms contains_refl [of word] show ?thesis
    by (auto simp: list_ex_iff)
qed

lemma procedure_codes_never_mapped:
  "set (CPT cs) \<subseteq> {''Unmapped''} \<Longrightarrow>
   set (CPT (code_entities cm ents cs)) \<subseteq> {''Unmapped''}"
proof (induction ents arbitrary: cs)
  case Nil
  then show ?case by simp
next
  case (Cons ent ents)
  show ?case
  proof (cases "list_ex (\<lambda>diag. contains diag (lower ent)) (map fst cm)")
    case True
    have "set (CPT (cs\<lparr>ICD := ICD cs @ [get cm (lower ent) ''Unmapped'']\<rparr>)) \<subseteq> {''Unmapped''}"
      using Cons.prems by simp
    from Cons.IH [OF this] True show ?thesis by (simp add: Let_def)
  next
    case False
    have g: "get cm (lower ent) ''Unmapped'' = ''Unmapped''"
      using False by (rule get_unmatched)
    have "set (CPT (cs\<lparr>CPT := CPT cs @ [''Unmapped'']\<rparr>)) \<subseteq> {''Unmapped''}"
      using Cons.prems by simp
    from Cons.IH [OF this] Cons.IH [OF Cons.prems] False g show ?thesis
      by (simp add: Let_def)
  qed
qed

text \<open>
  C3 says that an entity text containing a known phrase is given the code of that
  phrase. The code tests containment but looks the whole entity text up in the map:
  \<^verbatim>\<open>Type 2 Diabetes\<close> contains \<^verbatim>\<open>diabetes\<close> and is coded
  \<^verbatim>\<open>Unmapped\<close> instead of \<^verbatim>\<open>E11.9\<close>, and \<^verbatim>\<open>Fasting blood test\<close>
  contains \<^verbatim>\<open>blood test\<close> and is coded \<^verbatim>\<open>Unmapped\<close> instead of
  \<^verbatim>\<open>82947\<close>.
\<close>

theorem autocode_substring_unmapped:
  "contains ''diabetes'' (lower ''Type 2 Diabetes'') \<and>
   autocode (LocalAutocoder_init (\<lambda>_. Inr [''Type 2 Diabetes''])) ''Type 2 Diabetes, follow-up''
     = Inr \<lparr>ICD = [''Unmapped''], CPT = []\<rparr> \<and>
   contains ''blood test'' (lower ''Fasting blood test'') \<and>
   autocode (LocalAutocoder_init (\<lambda>_. Inr [''Fasting blood test''])) ''Fasting blood test ordered''
     = Inr \<lparr>ICD = [''Unmapped''], CPT = []\<rparr>"
  by (simp add: autocode_def LocalAutocoder_init_def lower_def lower_char_def get_def)

section \<open>The batch loop\<close>

lemma batch_loop_filter:
  "batch_loop w a r (filter (\<lambda>f. endswith f ''.hl7'') listing) st = batch_loop w a r listing st"
  by (induction listing arbitrary: st) (auto split: sum.splits)

lemma simulate_payment_paid:
  "fst (fst (simulate_payment coded sc v now csv)) = (sc > 0.7)"
  by (simp add: simulate_payment_def Let_def)

lemma process_claim_Inr:
  assumes "process_claim w a r f st = Inr st'"
  shows "rejections st' = rejections st + (if rejected_outcome w a r f then 1 else 0) \<and>
         (\<exists>l. printed st' = printed st @ [l] \<and> \<not> is_summary l \<and>
              is_rejection l = rejected_outcome w a r f)"
proof -
  from assms obtain claim_text claim_value coded sc where
    p: "parse_hl7_claim w f = Inr (claim_text, claim_value)" and
    c: "autocode a claim_text = Inr coded" and
    s: "score w r coded claim_text = Inr sc"
    by (auto simp: process_claim_def split: sum.splits prod.splits)
  have rej: "rejected_outcome w a r f = (\<not> sc > 0.7)"
    by (simp add: rejected_outcome_def p c s simulate_payment_paid)
  show ?thesis
    using assms
    by (auto simp: process_claim_def p c s rej simulate_payment_def Let_def split: if_splits)
qed

lemma batch_loop_Inr:
  "batch_loop w a r listing st = Inr st' \<Longrightarrow>
   rejections st' = rejections st +
     length (filter (\<lambda>f. endswith f ''.hl7'' \<and> rejected_outcome w a r f) listing) \<and>
   (\<exists>ls. printed st' = printed st @ ls \<and> filter is_summary ls = [] \<and>
         length (filter is_rejection ls) =
           length (filter (\<lambda>f. endswith f ''.hl7'' \<and> rejected_outcome w a r f) listing))"
proof (induction listing arbitrary: st)
  case Nil
  then show ?case by simp
next
  case (Cons f rest)
  show ?case
  proof (cases "endswith f ''.hl7''")
    case False
    with Cons.prems have "batch_loop w a r rest st = Inr st'" by simp
    from Cons.IH [OF this] False show ?thesis by simp
  next
    case True
    with Cons.prems obtain st1 where
      1: "process_claim w a r f st = Inr st1" and 2: "batch_loop w a r rest st1 = Inr st'"
      by (auto split: sum.splits)
    from process_claim_Inr [OF 1] obtain l where
      r1: "rejections st1 = rejections st + (if rejected_outcome w a r f then 1 else 0)" and
      l: "printed st1 = printed st @ [l]" "\<not> is_summary l"
         "is_rejection l = rejected_outcome w a r f"
      by blast
    from Cons.IH [OF 2] obtain ls where
      r2: "rejections st' = rejections st1 +
             length (filter (\<lambda>f. endswith f ''.hl7'' \<and> rejected_outcome w a r f) rest)" and
      ls: "printed st' = printed st1 @ ls" "filter is_summary ls = []"
          "length (filter is_rejection ls) =
             length (filter (\<lambda>f. endswith f ''.hl7'' \<and> rejected_outcome w a r f) rest)"
      by blast
    have "printed st' = printed st @ (l # ls)"
      using l(1) ls(1) by simp
    moreover have "filter is_summary (l # ls) = []"
      using l(2) ls(2) by simp
    moreover have "length (filter is_rejection (l # ls)) =
        length (filter (\<lambda>f. endswith f ''.hl7'' \<and> rejected_outcome w a r f) (f # rest))"
      using l(3) ls(3) True by simp
    moreover have "rejections st' = rejections st +
        length (filter (\<lambda>f. endswith f ''.hl7'' \<and> rejected_outcome w a r f) (f # rest))"
      using r1 r2 True by simp
    ultimately show ?thesis by blast
  qed
qed

lemma run_portal_metrics_lines:
  "filter is_summary (fst (run_portal_metrics p h)) = [] \<and>
   filter is_rejection (fst (run_portal_metrics p h)) = []"
  by (simp add: run_portal_metrics_def Let_def split: option.splits)

lemma main_setup_printed:
  "main_setup w fs0 = (a, r, st0) \<Longrightarrow>
     printed st0 = [] \<and> rejections st0 = 0 \<and> a = LocalAutocoder_init (ner w)"
  by (auto simp: main_setup_def Let_def split: prod.splits)

lemma demo_setup:
  "main_setup demo_world no_files =
     (LocalAutocoder_init (ner demo_world),
      \<lparr>vectorizer = Fitted seed_docs, clf = Some (\<lambda>_. four_fifths)\<rparr>,
      \<lparr>rejections = 0, printed = [],
       files = \<lparr>risk_model_pkl = Some (\<lambda>_. four_fifths), paid_claims_csv = None,
                historical_summary_csv = None\<rparr>\<rparr>)"
  by (simp add: main_setup_def LocalRiskEngine_init_def train_mock_model_def demo_world_def
        no_files_def Let_def)


lemma batch_loop_append:
  "batch_loop w a r (xs @ ys) st =
     (case batch_loop w a r xs st of Inl x \<Rightarrow> Inl x | Inr st' \<Rightarrow> batch_loop w a r ys st')"
  by (induction xs arbitrary: st) (auto split: sum.splits)

text \<open>
  C6, as the specification states it, says that the coordinator reports a summary with
  the number of claims and the number of rejections to its caller. It fails: the loop
  keeps one counter, \<^verbatim>\<open>rejections\<close>, the summary line shows that counter alone and
  \<^verbatim>\<open>main\<close> returns nothing. A batch of three claims with one rejection and a batch
  of one claim with one rejection end with the same summary line.
\<close>

theorem batch_summary_counterexample:
  "stdout (main demo_world [''a.hl7'', ''b.hl7'', ''c.hl7''] no_files) =
     [Paid_line ''a.hl7'' \<lparr>ICD = [''E11.9''], CPT = []\<rparr> 0.85 98,
      Paid_line ''b.hl7'' \<lparr>ICD = [''99213''], CPT = []\<rparr> 0.85 196,
      Rejected_line 0.45 ''c.hl7'', Batch_complete 1, Portal_metrics 2 294 20] \<and>
   stdout (main demo_world [''c.hl7''] no_files) =
     [Rejected_line 0.45 ''c.hl7'', Batch_complete 1]"
  by code_simp

text \<open>
  C6, amended. When the loop runs to completion, the counter holds the number of
  \<^verbatim>\<open>.hl7\<close> entries whose claim was Rejected, one rejection line was printed for each
  of them, and the output holds exactly one summary line, which carries that counter and
  nothing else.
\<close>

theorem summary_counts_rejections:
  assumes "main_setup w fs0 = (a, r, st0)"
      and "batch_loop w a r listing st0 = Inr st"
  shows "rejections st =
           length (filter (\<lambda>f. endswith f ''.hl7'' \<and> rejected_outcome w a r f) listing) \<and>
         filter is_summary (stdout (main w listing fs0)) = [Batch_complete (rejections st)] \<and>
         length (filter is_rejection (stdout (main w listing fs0))) = rejections st"
proof -
  from main_setup_printed [OF assms(1)] have z: "printed st0 = []" "rejections st0 = 0"
    by simp_all
  from batch_loop_Inr [OF assms(2)] z obtain ls where
    r: "rejections st =
          length (filter (\<lambda>f. endswith f ''.hl7'' \<and> rejected_outcome w a r f) listing)" and
    ls: "printed st = ls" "filter is_summary ls = []"
        "length (filter is_rejection ls) =
           length (filter (\<lambda>f. endswith f ''.hl7'' \<and> rejected_outcome w a r f) listing)"
    by auto
  have out: "stdout (main w listing fs0) =
      printed st @ [Batch_complete (rejections st)] @
      fst (run_portal_metrics (paid_claims_csv (files st)) (historical_summary_csv (files st)))"
    by (simp add: main_def assms Let_def split: prod.splits)
  show ?thesis
    using r ls by (simp add: out run_portal_metrics_lines)
qed

text \<open>C6 amended, on the batch of three claims with one rejection.\<close>

theorem summary_counts_rejections_witness:
  "filter is_summary (stdout (main demo_world [''a.hl7'', ''b.hl7'', ''c.hl7''] no_files))
     = [Batch_complete 1] \<and>
   length (filter is_rejection
     (stdout (main demo_world [''a.hl7'', ''b.hl7'', ''c.hl7''] no_files))) = 1"
proof -
  let ?a = "LocalAutocoder_init (ner demo_world)"
  let ?r = "\<lparr>vectorizer = Fitted seed_docs, clf = Some (\<lambda>_. four_fifths)\<rparr>"
  let ?st0 = "\<lparr>rejections = 0, printed = [],
       files = \<lparr>risk_model_pkl = Some (\<lambda>_. four_fifths), paid_claims_csv = None,
                historical_summary_csv = None\<rparr>\<rparr>"
  have "case batch_loop demo_world ?a ?r [''a.hl7'', ''b.hl7'', ''c.hl7''] ?st0 of
          Inl _ \<Rightarrow> False | Inr st \<Rightarrow> rejections st = 1"
    by code_simp
  then obtain st where
    l: "batch_loop demo_world ?a ?r [''a.hl7'', ''b.hl7'', ''c.hl7''] ?st0 = Inr st" and
    n: "rejections st = 1"
    by (auto split: sum.splits)
  from summary_counts_rejections [OF demo_setup l] n show ?thesis by simp
qed

text \<open>
  C8. When the entity-recognition pipeline raises on a claim, \<^verbatim>\<open>autocode\<close> raises
  the same exception, the processing of that claim raises it, and \<^verbatim>\<open>main\<close> ends
  with it: the output stops at what the claims before had printed, the claims after are
  not processed and no summary line is printed.
\<close>

theorem extractor_failure_aborts_batch:
  assumes "main_setup w fs0 = (a, r, st0)"
      and "batch_loop w a r before st0 = Inr st"
      and "endswith f ''.hl7''"
      and "parse_hl7_claim w f = Inr (claim_text, claim_value)"
      and "ner w claim_text = Inl e"
  shows "autocode a claim_text = Inl e \<and>
         process_claim w a r f st = Inl e \<and>
         main w (before @ f # rest) fs0 =
           \<lparr>raised = Some e, stdout = printed st, files_after = files st\<rparr> \<and>
         filter is_summary (stdout (main w (before @ f # rest) fs0)) = []"
proof -
  from main_setup_printed [OF assms(1)] have
    z: "printed st0 = []" and a: "a = LocalAutocoder_init (ner w)"
    by simp_all
  have c: "autocode a claim_text = Inl e"
    by (simp add: a autocode_def LocalAutocoder_init_def assms(5))
  have p: "process_claim w a r f st = Inl e"
    by (simp add: process_claim_def assms(4) c)
  have l: "batch_loop w a r (before @ f # rest) st0 = Inl (e, st)"
    by (simp add: batch_loop_append assms(2) assms(3) p)
  have m: "main w (before @ f # rest) fs0 =
             \<lparr>raised = Some e, stdout = printed st, files_after = files st\<rparr>"
    by (simp add: main_def assms(1) l)
  from batch_loop_Inr [OF assms(2)] z have n: "filter is_summary (printed st) = []"
    by auto
  show ?thesis
    using c p m n by simp
qed

text \<open>
  C8 on a directory of three claims, the pipeline raising on the second: one line was
  printed, for the first claim, and none for the third.
\<close>

theorem extractor_failure_aborts_batch_witness:
  "raised (main demo_world [''a.hl7'', ''d.hl7'', ''b.hl7''] no_files) = Some ExtractorFailure \<and>
   filter is_summary (stdout (main demo_world [''a.hl7'', ''d.hl7'', ''b.hl7''] no_files)) = [] \<and>
   length (stdout (main demo_world [''a.hl7'', ''d.hl7'', ''b.hl7''] no_files)) = 1"
proof -
  let ?a = "LocalAutocoder_init (ner demo_world)"
  let ?r = "\<lparr>vectorizer = Fitted seed_docs, clf = Some (\<lambda>_. four_fifths)\<rparr>"
  let ?st0 = "\<lparr>rejections = 0, printed = [],
       files = \<lparr>risk_model_pkl = Some (\<lambda>_. four_fifths), paid_claims_csv = None,
                historical_summary_csv = None\<rparr>\<rparr>"
  have "case batch_loop demo_world ?a ?r [''a.hl7''] ?st0 of
          Inl _ \<Rightarrow> False | Inr st \<Rightarrow> length (printed st) = 1"
    by code_simp
  then obtain st where
    l: "batch_loop demo_world ?a ?r [''a.hl7''] ?st0 = Inr st" and
    n: "length (printed st) = 1"
    by (auto split: sum.splits)
  have e: "endswith ''d.hl7'' ''.hl7''"
    by (simp add: endswith_def)
  have p: "parse_hl7_claim demo_world ''d.hl7'' = Inr (''unreadable'', 150)"
    by (simp add: demo_world_def)
  have x: "ner demo_world ''unreadable'' = Inl ExtractorFailure"
    by (simp add: demo_world_def)
  note t = extractor_failure_aborts_batch [OF demo_setup l e p x, of "[''b.hl7'']"]
  from t have m: "main demo_world ([''a.hl7''] @ ''d.hl7'' # [''b.hl7'']) no_files =
      \<lparr>raised = Some ExtractorFailure, stdout = printed st, files_after = files st\<rparr>"
    by blast
  from t have s: "filter is_summary
      (stdout (main demo_world ([''a.hl7''] @ ''d.hl7'' # [''b.hl7'']) no_files)) = []"
    by blast
  from m have r: "raised (main demo_world ([''a.hl7''] @ ''d.hl7'' # [''b.hl7'']) no_files) =
      Some ExtractorFailure"
    by simp
  from m n have k: "length (stdout (main demo_world ([''a.hl7''] @ ''d.hl7'' # [''b.hl7'']) no_files)) = 1"
    by simp
  from r s k show ?thesis by simp
qed

lemma first_number_parse:
  "first_number (w\<lparr>parse_hl7_claim := g\<rparr>) p = first_number w p"
  by (simp add: first_number_def cong: oracle_reply.case_cong option.case_cong list.case_cong)

lemma score_parse:
  "score (w\<lparr>parse_hl7_claim := g\<rparr>) r coded t = score w r coded t"
  by (simp add: score_def llm_score_def first_number_parse)

lemma process_claim_parse:
  "g f = parse_hl7_claim w f \<Longrightarrow>
   process_claim (w\<lparr>parse_hl7_claim := g\<rparr>) a r f st = process_claim w a r f st"
  by (simp add: process_claim_def score_parse cong: sum.case_cong prod.case_cong)

lemma batch_loop_parse:
  "batch_loop (w\<lparr>parse_hl7_claim :=
      (\<lambda>f. if endswith f ''.hl7'' then parse_hl7_claim w f else Inl ParserFailure)\<rparr>)
      a r listing st = batch_loop w a r listing st"
proof (induction listing arbitrary: st)
  case Nil
  then show ?case by simp
next
  case (Cons f rest)
  show ?case
  proof (cases "endswith f ''.hl7''")
    case True
    have "process_claim (w\<lparr>parse_hl7_claim :=
      (\<lambda>f. if endswith f ''.hl7'' then parse_hl7_claim w f else Inl ParserFailure)\<rparr>) a r f st
       = process_claim w a r f st"
      by (rule process_claim_parse) (simp add: True)
    with True Cons.IH show ?thesis by (simp split: sum.splits)
  next
    case False
    with Cons.IH show ?thesis by simp
  qed
qed

lemma main_setup_parse:
  "main_setup (w\<lparr>parse_hl7_claim := g\<rparr>) fs0 = main_setup w fs0"
proof -
  have "train_mock_model (w\<lparr>parse_hl7_claim := g\<rparr>) e = train_mock_model w e" for e
    by (simp add: train_mock_model_def)
  then have "LocalRiskEngine_init (w\<lparr>parse_hl7_claim := g\<rparr>) pkl = LocalRiskEngine_init w pkl"
    for pkl
    by (simp add: LocalRiskEngine_init_def cong: option.case_cong)
  then show ?thesis
    by (simp add: main_setup_def)
qed

text \<open>
  C10. Only the directory entries whose names end in \<^verbatim>\<open>.hl7\<close> are processed:
  running \<^verbatim>\<open>main\<close> on a listing gives the same exception, the same printed lines
  and the same files as running it on the listing with every other entry removed. The
  other entries are not parsed either: the run is the same in a world where parsing any
  of them would raise.
\<close>

theorem non_hl7_entries_skipped:
  "main w listing fs0 = main w (filter (\<lambda>f. endswith f ''.hl7'') listing) fs0 \<and>
   main w listing fs0 =
     main (w\<lparr>parse_hl7_claim :=
             (\<lambda>f. if endswith f ''.hl7'' then parse_hl7_claim w f else Inl ParserFailure)\<rparr>)
       listing fs0"
  by (simp add: main_def batch_loop_filter batch_loop_parse main_setup_parse)

text \<open>C10 on a directory with two claim files and two other entries.\<close>

theorem non_hl7_entries_skipped_witness:
  "stdout (main demo_world [''a.hl7'', ''notes.txt'', ''c.hl7'', ''README''] no_files)
   = stdout (main demo_world [''a.hl7'', ''c.hl7''] no_files)"
proof -
  have "filter (\<lambda>f. endswith f ''.hl7'') [''a.hl7'', ''notes.txt'', ''c.hl7'', ''README''] = [''a.hl7'', ''c.hl7'']"
    by (simp add: endswith_def)
  with non_hl7_entries_skipped [of demo_world "[''a.hl7'', ''notes.txt'', ''c.hl7'', ''README'']" no_files]
  show ?thesis by simp
qed

end
